theory Spec2Isabelle
  imports Complex_Main "HOL-Library.Word"
begin

section \<open>The nacos registry of dubbo-go: a shallow embedding\<close>

text \<open>
  The embedded file is the nacos registry (package \<open>nacos\<close>): service identity
  composition, the registration record, \<open>Register\<close>, \<open>UnRegister\<close>, \<open>Subscribe\<close> with
  \<open>subscribeUntilSuccess\<close> and \<open>subscribeAll\<close>, \<open>subscribe\<close> and the event pump
  \<open>handleServiceEvents\<close>, \<open>IsAvailable\<close> and \<open>Destroy\<close>. \<open>scheduledLookUp\<close> is a goroutine
  that \<open>Subscribe\<close> starts and does not wait for; \<open>UnSubscribe\<close> and
  \<open>LoadSubscribeInstances\<close> are not called by any of the functions above.

  Go strings are byte sequences: \<open>string\<close>. Effects are explicit: every function
  takes the state of the process and returns the new one. A run-time panic of Go is the
  value \<open>Panicked\<close> of the result. A call that does not return has no result: \<open>None\<close>.
\<close>

subsection \<open>Functions of the Go standard library\<close>

definition is_digit :: "char \<Rightarrow> bool" where
  "is_digit c = (48 \<le> (of_char c :: nat) \<and> (of_char c :: nat) \<le> 57)"

definition digits_value :: "string \<Rightarrow> nat" where
  "digits_value ds = foldl (\<lambda>n c. 10 * n + ((of_char c :: nat) - 48)) 0 ds"

text \<open>
  \<open>strconv.Atoi\<close> with its error dropped, as every call site here does (\<open>n, _ := Atoi(s)\<close>),
  for the 64-bit \<open>int\<close>: an optional sign, then one decimal digit or more. A syntax error
  gives 0, a value out of range gives the nearest bound.
\<close>

definition Atoi :: "string \<Rightarrow> int" where
  "Atoi s =
     (let neg = (s \<noteq> [] \<and> hd s = CHR ''-'');
          ds = (if s \<noteq> [] \<and> (hd s = CHR ''-'' \<or> hd s = CHR ''+'') then tl s else s)
      in if ds = [] \<or> \<not> list_all is_digit ds then 0
         else if neg then max (- (2 ^ 63)) (- int (digits_value ds))
         else min (2 ^ 63 - 1) (int (digits_value ds)))"

function dec :: "nat \<Rightarrow> string" where
  "dec n = (if n < 10 then [char_of (48 + n)] else dec (n div 10) @ [char_of (48 + n mod 10)])"
  by pat_completeness auto
termination
  by (relation "measure id") auto

declare dec.simps [simp del]

text \<open>\<open>strconv.Itoa\<close>.\<close>

definition Itoa :: "int \<Rightarrow> string" where
  "Itoa i = (if i < 0 then CHR ''-'' # dec (nat (- i)) else dec (nat i))"

text \<open>
  \<open>strings.TrimSpace(s) == ""\<close>, the only use made of \<open>TrimSpace\<close>: the string is made of
  white-space runes only. \<open>space_len\<close> is the length in bytes of the white-space rune
  (\<open>unicode.IsSpace\<close>, in UTF-8) that the bytes start with, 0 when they start with none.
\<close>

definition space_len :: "nat list \<Rightarrow> nat" where
  "space_len bs =
     (case bs of
        [] \<Rightarrow> 0
      | a # r \<Rightarrow>
          if a \<in> {9, 10, 11, 12, 13, 32} then 1
          else (case r of
              [] \<Rightarrow> 0
            | b # r2 \<Rightarrow>
                if a = 194 \<and> (b = 133 \<or> b = 160) then 2
                else (case r2 of
                    [] \<Rightarrow> 0
                  | c # r3 \<Rightarrow>
                      if (a = 225 \<and> b = 154 \<and> c = 128)
                         \<or> (a = 226 \<and> b = 128 \<and> ((128 \<le> c \<and> c \<le> 138) \<or> c = 168 \<or> c = 169 \<or> c = 175))
                         \<or> (a = 226 \<and> b = 129 \<and> c = 159)
                         \<or> (a = 227 \<and> b = 128 \<and> c = 128)
                      then 3 else 0)))"

function only_space :: "nat list \<Rightarrow> bool" where
  "only_space bs =
     (if bs = [] then True
      else if space_len bs = 0 then False
      else only_space (drop (space_len bs) bs))"
  by pat_completeness auto
termination
  by (relation "measure length") auto

declare only_space.simps [simp del]

definition TrimSpace_is_empty :: "string \<Rightarrow> bool" where
  "TrimSpace_is_empty s = only_space (map of_char s)"



text \<open>\<open>strings.Join\<close>.\<close>

fun Join :: "string list \<Rightarrow> string \<Rightarrow> string" where
  "Join [] sep = []"
| "Join [x] sep = x"
| "Join (x # y # ys) sep = x @ sep @ Join (y # ys) sep"

text \<open>
  A \<open>float64\<close>: a finite value is the real number it denotes. The comparisons are Go's:
  every comparison with NaN is false.
\<close>

datatype float64 = NaN | NegInf | Finite real | PosInf

fun f64_le :: "float64 \<Rightarrow> float64 \<Rightarrow> bool" where
  "f64_le NaN _ = False"
| "f64_le _ NaN = False"
| "f64_le NegInf _ = True"
| "f64_le (Finite x) NegInf = False"
| "f64_le (Finite x) (Finite y) = (x \<le> y)"
| "f64_le (Finite x) PosInf = True"
| "f64_le PosInf PosInf = True"
| "f64_le PosInf _ = False"

fun f64_gt :: "float64 \<Rightarrow> float64 \<Rightarrow> bool" where
  "f64_gt NaN _ = False"
| "f64_gt _ NaN = False"
| "f64_gt NegInf _ = False"
| "f64_gt (Finite x) NegInf = True"
| "f64_gt (Finite x) (Finite y) = (x > y)"
| "f64_gt (Finite x) PosInf = False"
| "f64_gt PosInf PosInf = False"
| "f64_gt PosInf _ = True"

subsection \<open>The endpoint descriptor\<close>

text \<open>An error value of Go is its message; \<open>nil\<close> is \<open>None\<close>.\<close>

type_synonym error = "string option"

record URL =
  Protocol :: string
  Path :: string
  Ip :: string
  Port :: string
  Methods :: "string list"
  params :: "(string \<times> string) list"

text \<open>
  Modelled from the spec: \<open>common.URL\<close> and its accessor \<open>GetParam(key, default)\<close> are declared
  outside these sources. The endpoint descriptor has "an open key/value parameter map", and
  a parameter that is not given, or is empty, reads as the default.
\<close>

definition GetParam :: "URL \<Rightarrow> string \<Rightarrow> string \<Rightarrow> string" where
  "GetParam url key d =
     (case map_of (params url) key of
        None \<Rightarrow> d
      | Some v \<Rightarrow> if v = [] then d else v)"

subsection \<open>What the file uses and does not declare\<close>

text \<open>
  The constants of the packages \<open>constant\<close> and \<open>common\<close>, \<open>getSubscribeName\<close> of another
  file, the parser of floats of the standard library, the address the process registers
  under, the clock (\<open>clock E k\<close> is the reading number \<open>k\<close>, in nanoseconds) and the events a
  subscription handle produces (\<open>produced E h k\<close> is what the call number \<open>k\<close> of \<open>Next\<close> on
  the handle \<open>h\<close> gets: an error, an event, or nothing ever) are taken as parameters: every
  theorem holds for every value of them.
\<close>

type_synonym time = int

datatype EventType = EventTypeAdd | EventTypeDel | EventTypeUpdate

record ServiceEvent =
  Action :: EventType
  Service :: URL

record env =
  InterfaceKey :: string
  VersionKey :: string
  GroupKey :: string
  RegistryRoleKey :: string
  WeightKey :: string
  CategoryKey :: string
  NacosGroupKey :: string
  RegistryGroupKey :: string
  NacosCategoryKey :: string
  NacosProtocolKey :: string
  NacosPathKey :: string
  MethodsKey :: string
  DefaultCategory :: string
  AnyValue :: string
  defaultGroup :: string
  NacosDefaultRoleType :: int
  CONSUMER :: int
  DubboNodes :: "string list"
  MinNacosWeight :: float64
  ipToRegistry :: "URL \<Rightarrow> string"
  portToRegistry :: "URL \<Rightarrow> string"
  getSubscribeName :: "URL \<Rightarrow> string"
  ParseFloat :: "string \<Rightarrow> float64 \<times> error"
  clock :: "nat \<Rightarrow> time"
  produced :: "nat \<Rightarrow> nat \<Rightarrow> (string + ServiceEvent) option"

text \<open>
  Modelled from the spec: the reserved separator of a service identity and the separator of
  the category list, as in "providers:com.foo.Bar:1.0:g1" and "comma-separated category list".
\<close>

definition NacosServiceNameSeparator :: char where
  "NacosServiceNameSeparator = CHR '':''"


text \<open>
  The default and the maximum weight, as the two warnings of \<open>createRegisterParam\<close> print
  them ("using default 1.0", "exceeds Nacos maximum 10000, setting to 10000").
\<close>

definition DefaultNacosWeight :: float64 where
  "DefaultNacosWeight = Finite 1"

definition MaxNacosWeight :: float64 where
  "MaxNacosWeight = Finite 10000"

text \<open>Nanoseconds.\<close>

definition checkInterval :: int where
  "checkInterval = 5 * 1000000000"

definition LookupInterval :: int where
  "LookupInterval = 20 * 1000000000"


text \<open>
  Modelled from the spec: \<open>common.HandleRegisterIPAndPort\<close> is declared outside these
  sources. It "normalizes the endpoint's network address representation", in place: the IP
  and the port of the URL become what the environment of the process makes of them, and
  nothing else of the URL changes.
\<close>

definition HandleRegisterIPAndPort :: "env \<Rightarrow> URL \<Rightarrow> URL" where
  "HandleRegisterIPAndPort E url = url\<lparr>Ip := ipToRegistry E url, Port := portToRegistry E url\<rparr>"

subsection \<open>Service identity\<close>

datatype panic =
  IndexOutOfRange
  | NilPointerDereference
  | CloseOfClosedChannel
  | CloseOfNilChannel

datatype 'a outcome = Returned 'a | Panicked panic

text \<open>\<open>common.DubboNodes\<close> is an array: an index outside it panics.\<close>

definition getCategory :: "env \<Rightarrow> URL \<Rightarrow> string outcome" where
  "getCategory E url =
     (let role = Atoi (GetParam url (RegistryRoleKey E) (Itoa (NacosDefaultRoleType E)))
      in if 0 \<le> role \<and> role < int (length (DubboNodes E))
         then Returned (DubboNodes E ! nat role)
         else Panicked IndexOutOfRange)"

text \<open>The buffer is passed and returned.\<close>

definition appendParam :: "env \<Rightarrow> string \<Rightarrow> URL \<Rightarrow> string \<Rightarrow> string" where
  "appendParam E target url key =
     (let value = GetParam url key [];
          target1 = target @ [NacosServiceNameSeparator]
      in if \<not> TrimSpace_is_empty value then target1 @ value else target1)"

definition getServiceName :: "env \<Rightarrow> URL \<Rightarrow> string outcome" where
  "getServiceName E url =
     (case getCategory E url of
        Panicked p \<Rightarrow> Panicked p
      | Returned category \<Rightarrow>
          (let buffer = category;
               buffer1 = appendParam E buffer url (InterfaceKey E);
               buffer2 = appendParam E buffer1 url (VersionKey E);
               buffer3 = appendParam E buffer2 url (GroupKey E)
           in Returned buffer3))"

subsection \<open>The registration record\<close>

record RegisterInstanceParam =
  r_Ip :: string
  r_Port :: "64 word"
  r_Metadata :: "string \<rightharpoonup> string"
  r_Weight :: float64
  r_Enable :: bool
  r_Healthy :: bool
  r_Ephemeral :: bool
  r_ServiceName :: string
  r_GroupName :: string

record DeregisterInstanceParam =
  d_Ip :: string
  d_Port :: "64 word"
  d_ServiceName :: string
  d_GroupName :: string
  d_Ephemeral :: bool

text \<open>Lines 114 to 122 of \<open>createRegisterParam\<close>: the weight of the record.\<close>

definition registerWeight :: "env \<Rightarrow> URL \<Rightarrow> float64" where
  "registerWeight E url =
     (let weightStr = GetParam url (WeightKey E) ''1.0'';
          (weight, err) = ParseFloat E weightStr
      in if err \<noteq> None \<or> f64_le weight (MinNacosWeight E) then DefaultNacosWeight
         else if f64_gt weight MaxNacosWeight then MaxNacosWeight
         else weight)"

text \<open>
  \<open>HandleRegisterIPAndPort\<close> rewrites the address of the URL in place: the URL as it is left
  is returned with the record.
\<close>

definition createRegisterParam ::
  "env \<Rightarrow> URL \<Rightarrow> string \<Rightarrow> string \<Rightarrow> (RegisterInstanceParam \<times> URL) outcome" where
  "createRegisterParam E url serviceName groupName =
     (case getCategory E url of
        Panicked p \<Rightarrow> Panicked p
      | Returned category \<Rightarrow>
          (let ps = (map_of (params url))
                 (NacosCategoryKey E \<mapsto> category,
                  NacosProtocolKey E \<mapsto> Protocol url,
                  NacosPathKey E \<mapsto> Path url,
                  MethodsKey E \<mapsto> Join (Methods url) '','');
               url1 = HandleRegisterIPAndPort E url;
               port = Atoi (Port url1);
               weight = registerWeight E url1
           in Returned
                (\<lparr>r_Ip = Ip url1, r_Port = word_of_int port, r_Metadata = ps,
                  r_Weight = weight, r_Enable = True, r_Healthy = True, r_Ephemeral = True,
                  r_ServiceName = serviceName, r_GroupName = groupName\<rparr>, url1)))"

definition createDeregisterParam ::
  "env \<Rightarrow> URL \<Rightarrow> string \<Rightarrow> string \<Rightarrow> DeregisterInstanceParam \<times> URL" where
  "createDeregisterParam E url serviceName groupName =
     (let url1 = HandleRegisterIPAndPort E url;
          port = Atoi (Port url1)
      in (\<lparr>d_Ip = Ip url1, d_Port = word_of_int port, d_ServiceName = serviceName,
           d_GroupName = groupName, d_Ephemeral = True\<rparr>, url1))"

subsection \<open>The registry and the process around it\<close>

text \<open>
  \<open>done\<close> is a channel that is only ever closed: it is nil in a registry built as
  \<open>&nacosRegistry{}\<close>, open after \<open>make\<close>, closed after \<open>close\<close>.
\<close>

datatype chan = NilChan | OpenChan | ClosedChan

text \<open>
  A time is a number of nanoseconds on one axis, on which the zero \<open>time.Time\<close> is 0.
  \<open>time.Since(t) < d\<close> is \<open>now - t < d\<close>: a \<open>Duration\<close> saturates at its bounds, which are
  far from \<open>d\<close>, so the comparison is the same.
\<close>

record availabilityCache =
  lastAvailable :: bool
  lastCheckTime :: time

text \<open>
  The backend naming client is an interface: a record of its methods. A method gets the
  number of backend calls made before this one, so that its answer may depend on the history,
  and answers as the Go method returns.
\<close>

record INamingClient =
  RegisterInstance :: "nat \<Rightarrow> RegisterInstanceParam \<Rightarrow> bool \<times> error"
  DeregisterInstance :: "nat \<Rightarrow> DeregisterInstanceParam \<Rightarrow> bool \<times> error"
  GetAllServicesInfo :: "nat \<Rightarrow> string \<Rightarrow> nat \<Rightarrow> nat \<Rightarrow> string list \<times> error"
  Subscribe_backend :: "nat \<Rightarrow> string \<Rightarrow> string \<Rightarrow> error"

record NacosNamingClient =
  client :: "INamingClient option"

datatype call =
  RegisterInstance_call RegisterInstanceParam
  | DeregisterInstance_call DeregisterInstanceParam
  | GetAllServicesInfo_call string nat nat
  | Subscribe_call string string
  | CloseClient_call

text \<open>
  A line of the logger: the format and those of its arguments that are strings or errors.
\<close>

datatype log_entry =
  Infof string "string list"
  | Warnf string "string list"
  | Errorf string "string list"

datatype metric = RegisterEvent bool time | SubscribeEvent bool

text \<open>
  Modelled from the spec: the subscription handle (\<open>nacosListener\<close>) is declared outside
  these sources. It is "scoped to the service name", it can be closed, and it produces change
  events one after the other; \<open>l_taken\<close> counts the events taken from it.
\<close>

record nacosListener =
  l_serviceName :: string
  l_closed :: bool
  l_taken :: nat

text \<open>A goroutine that was started: its function and arguments.\<close>

datatype goroutine =
  go_handleServiceEvents nat nat
  | go_scheduledLookUp URL nat

text \<open>
  The fields of \<open>nacosRegistry\<close>: \<open>regURL\<close> is the embedded \<open>*common.URL\<close>, \<open>done_chan\<close> the
  channel \<open>done\<close>, \<open>wg\<close> the counter of the wait group.
\<close>

record nacosRegistry =
  regURL :: URL
  namingClient :: "NacosNamingClient option"
  registryUrls :: "URL list"
  done_chan :: chan
  availability :: availabilityCache
  wg :: nat

text \<open>
  The process: the registry, the process-wide \<open>listenerCache\<close> (key to handle), the handles
  that exist, and what the registry did to the outside: the backend calls in order, the
  readings of the clock, the log, the metrics, the events handed to the notify sinks (sink and
  event) and the goroutines started.
\<close>

record process = nacosRegistry +
  listenerCache :: "(string \<times> nat) list"
  listeners :: "nacosListener list"
  trace :: "call list"
  ticks :: nat
  logs :: "log_entry list"
  metrics :: "metric list"
  notified :: "(nat \<times> ServiceEvent) list"
  goroutines :: "goroutine list"

definition time_Now :: "env \<Rightarrow> process \<Rightarrow> time \<times> process" where
  "time_Now E st = (clock E (ticks st), st\<lparr>ticks := Suc (ticks st)\<rparr>)"

definition logger :: "log_entry \<Rightarrow> process \<Rightarrow> process" where
  "logger l st = st\<lparr>logs := logs st @ [l]\<rparr>"

definition metrics_Publish :: "metric \<Rightarrow> process \<Rightarrow> process" where
  "metrics_Publish m st = st\<lparr>metrics := metrics st @ [m]\<rparr>"

definition backend_called :: "call \<Rightarrow> process \<Rightarrow> process" where
  "backend_called c st = st\<lparr>trace := trace st @ [c]\<rparr>"

text \<open>
  \<open>nr.namingClient.Client()\<close> followed by a method call: a nil \<open>namingClient\<close> or a nil
  client panics.
\<close>

definition Client :: "process \<Rightarrow> INamingClient outcome" where
  "Client st =
     (case namingClient st of
        None \<Rightarrow> Panicked NilPointerDereference
      | Some nc \<Rightarrow>
          (case client nc of
             None \<Rightarrow> Panicked NilPointerDereference
           | Some c \<Rightarrow> Returned c))"

text \<open>The test \<open>nr.namingClient == nil || nr.namingClient.Client() == nil\<close>.\<close>

definition nil_client :: "process \<Rightarrow> bool" where
  "nil_client st =
     (case namingClient st of
        None \<Rightarrow> True
      | Some nc \<Rightarrow> client nc = None)"

subsection \<open>IsAvailable\<close>

definition IsAvailable :: "env \<Rightarrow> process \<Rightarrow> bool \<times> process" where
  "IsAvailable E st =
     (if done_chan st = ClosedChan then (False, st)
      else
        (let (now1, st1) = time_Now E st
         in if now1 - lastCheckTime (availability st1) < checkInterval
            then (lastAvailable (availability st1), st1)
            else
              (let (now2, st2) = time_Now E st1;
                   st3 = st2\<lparr>availability := (availability st2)\<lparr>lastCheckTime := now2\<rparr>\<rparr>
               in case namingClient st3 of
                    None \<Rightarrow>
                      (False, st3\<lparr>availability := (availability st3)\<lparr>lastAvailable := False\<rparr>\<rparr>)
                  | Some nc \<Rightarrow>
                      (case client nc of
                         None \<Rightarrow>
                           (False,
                            st3\<lparr>availability := (availability st3)\<lparr>lastAvailable := False\<rparr>\<rparr>)
                       | Some c \<Rightarrow>
                           (let group = GetParam (regURL st3) (RegistryGroupKey E) (defaultGroup E);
                                (services, err) =
                                  GetAllServicesInfo c (length (trace st3)) group 1 1;
                                st4 = backend_called (GetAllServicesInfo_call group 1 1) st3;
                                st5 = st4\<lparr>availability :=
                                        (availability st4)\<lparr>lastAvailable := (err = None)\<rparr>\<rparr>
                            in (err = None, st5))))))"

subsection \<open>Register and UnRegister\<close>

definition Register :: "env \<Rightarrow> URL \<Rightarrow> process \<Rightarrow> (error \<times> process) outcome" where
  "Register E url st =
     (let (start, st0) = time_Now E st
      in case getServiceName E url of
           Panicked p \<Rightarrow> Panicked p
         | Returned serviceName \<Rightarrow>
             (let groupName = GetParam (regURL st0) (NacosGroupKey E) (defaultGroup E)
              in case createRegisterParam E url serviceName groupName of
                   Panicked p \<Rightarrow> Panicked p
                 | Returned (param, url1) \<Rightarrow>
                     (let st1 = logger
                            (Infof ''[Nacos Registry] Registry instance with param = %+v'' []) st0
                      in case Client st1 of
                           Panicked p \<Rightarrow> Panicked p
                         | Returned c \<Rightarrow>
                             (let (isRegistry, err) = RegisterInstance c (length (trace st1)) param;
                                  st2 = backend_called (RegisterInstance_call param) st1;
                                  st3 = metrics_Publish
                                          (RegisterEvent (err = None \<and> isRegistry) start) st2
                              in if err \<noteq> None then Returned (err, st3)
                                 else if \<not> isRegistry
                                 then Returned
                                        (Some (''registry ['' @ serviceName @ ''] to  nacos failed''),
                                         st3)
                                 else Returned
                                        (None,
                                         st3\<lparr>registryUrls := registryUrls st3 @ [url1]\<rparr>)))))"

definition UnRegister :: "env \<Rightarrow> URL \<Rightarrow> process \<Rightarrow> (error \<times> process) outcome" where
  "UnRegister E url st =
     (case getServiceName E url of
        Panicked p \<Rightarrow> Panicked p
      | Returned serviceName \<Rightarrow>
          (let groupName = GetParam (regURL st) (NacosGroupKey E) (defaultGroup E);
               (param, url1) = createDeregisterParam E url serviceName groupName
           in case Client st of
                Panicked p \<Rightarrow> Panicked p
              | Returned c \<Rightarrow>
                  (let (isDeRegistry, err) = DeregisterInstance c (length (trace st)) param;
                       st1 = backend_called (DeregisterInstance_call param) st
                   in if err \<noteq> None then Returned (err, st1)
                      else if \<not> isDeRegistry
                      then Returned
                             (Some (''DeRegistry ['' @ serviceName @ ''] to nacos failed''), st1)
                      else Returned (None, st1))))"

subsection \<open>The subscription handle and the subscription cache\<close>


definition cache_Delete :: "string \<Rightarrow> (string \<times> nat) list \<Rightarrow> (string \<times> nat) list" where
  "cache_Delete key c = filter (\<lambda>kv. fst kv \<noteq> key) c"

definition cache_Store :: "string \<Rightarrow> nat \<Rightarrow> (string \<times> nat) list \<Rightarrow> (string \<times> nat) list" where
  "cache_Store key v c = (key, v) # cache_Delete key c"

text \<open>
  Modelled from the spec: \<open>NewNacosListenerWithServiceName\<close>, \<open>listenService\<close>, \<open>Next\<close> and
  \<open>Close\<close> of the handle are declared outside these sources. The handle is created "scoped to
  the service name"; \<open>listenService\<close> "issues the remote listen call", which like every backend
  call fails with an error and never with a panic, and on success the handle is installed
  "into SubscriptionCache keyed by name+group"; \<open>Next\<close> "blocks for the next change event from
  the handle" (\<open>None\<close>: no event comes, the call stays blocked) and gives an error once the
  handle is closed, which "is what unblocks any blocked EventPump so it can observe an error
  and exit".
\<close>

definition NewNacosListenerWithServiceName :: "string \<Rightarrow> process \<Rightarrow> nat \<times> process" where
  "NewNacosListenerWithServiceName serviceName st =
     (length (listeners st),
      st\<lparr>listeners := listeners st @
            [\<lparr>l_serviceName = serviceName, l_closed = False, l_taken = 0\<rparr>]\<rparr>)"

definition listenService :: "env \<Rightarrow> nat \<Rightarrow> string \<Rightarrow> process \<Rightarrow> error \<times> process" where
  "listenService E listener serviceName st =
     (case namingClient st of
        None \<Rightarrow> (Some ''nacos naming client stopped'', st)
      | Some nc \<Rightarrow>
          (case client nc of
             None \<Rightarrow> (Some ''nacos naming client stopped'', st)
           | Some c \<Rightarrow>
               (let group = GetParam (regURL st) (RegistryGroupKey E) (defaultGroup E);
                    err = Subscribe_backend c (length (trace st)) serviceName group;
                    st1 = backend_called (Subscribe_call serviceName group) st
                in if err \<noteq> None then (err, st1)
                   else (None,
                         st1\<lparr>listenerCache :=
                               cache_Store (serviceName @ group) listener (listenerCache st1)\<rparr>))))"

definition listener_Close :: "nat \<Rightarrow> process \<Rightarrow> process" where
  "listener_Close listener st =
     (if listener < length (listeners st)
      then st\<lparr>listeners := (listeners st)
                [listener := (listeners st ! listener)\<lparr>l_closed := True\<rparr>]\<rparr>
      else st)"



subsection \<open>subscribe and the event pump\<close>

text \<open>
  \<open>go func() { defer nr.wg.Done(); nr.handleServiceEvents(...) }()\<close> starts a goroutine: the
  state records it, it does not run inside \<open>subscribe\<close>.
\<close>

definition subscribe :: "env \<Rightarrow> string \<Rightarrow> nat \<Rightarrow> process \<Rightarrow> error \<times> process" where
  "subscribe E serviceName notifyListener st =
     (if length serviceName = 0
      then (None, logger (Warnf ''can not subscribe because service name is empty'' []) st)
      else
        (let (available, st1) = IsAvailable E st
         in if \<not> available
            then (Some ''nacosRegistry is not available.'',
                  logger (Warnf ''event listener game over.'' []) st1)
            else
              (let (listener, st2) = NewNacosListenerWithServiceName serviceName st1;
                   (err, st3) = listenService E listener serviceName st2;
                   st4 = metrics_Publish (SubscribeEvent (err = None)) st3
               in case err of
                    Some e \<Rightarrow>
                      (Some e,
                       logger (Warnf ''subscribe service %s err:%v'' [serviceName, e]) st4)
                  | None \<Rightarrow>
                      (None,
                       st4\<lparr>wg := wg st4 + 1,
                           goroutines := goroutines st4 @
                             [go_handleServiceEvents listener notifyListener]\<rparr>))))"



subsection \<open>The discovery loops\<close>








subsection \<open>Destroy\<close>

fun CloseListener_range :: "(string \<times> nat) list \<Rightarrow> process \<Rightarrow> process" where
  "CloseListener_range [] st = st"
| "CloseListener_range ((key, listener) # rest) st =
     CloseListener_range rest
       ((listener_Close listener st)\<lparr>listenerCache := cache_Delete key (listenerCache st)\<rparr>)"

definition CloseListener :: "process \<Rightarrow> process" where
  "CloseListener st = CloseListener_range (listenerCache st) st"

definition CloseAndNilClient :: "process \<Rightarrow> process" where
  "CloseAndNilClient st =
     (case namingClient st of
        None \<Rightarrow> st
      | Some nc \<Rightarrow>
          (case client nc of
             None \<Rightarrow> st
           | Some c \<Rightarrow> (backend_called CloseClient_call st)\<lparr>namingClient := None\<rparr>))"

text \<open>The body of the loop over \<open>nr.registryUrls\<close>, and the loop.\<close>

definition Destroy_body :: "env \<Rightarrow> URL \<Rightarrow> process \<Rightarrow> process outcome" where
  "Destroy_body E url st =
     (case UnRegister E url st of
        Panicked p \<Rightarrow> Panicked p
      | Returned (err, st1) \<Rightarrow>
          (let st2 = logger (Infof ''DeRegister Nacos URL:%+v'' []) st1
           in case err of
                None \<Rightarrow> Returned st2
              | Some e \<Rightarrow> Returned (logger (Errorf ''Deregister URL:%+v err:%v'' [e]) st2)))"

fun Destroy_loop :: "env \<Rightarrow> URL list \<Rightarrow> process \<Rightarrow> process outcome" where
  "Destroy_loop E [] st = Returned st"
| "Destroy_loop E (url # urls) st =
     (case Destroy_body E url st of
        Panicked p \<Rightarrow> Panicked p
      | Returned st1 \<Rightarrow> Destroy_loop E urls st1)"

text \<open>
  One call of \<open>Destroy\<close>, run alone. \<open>nr.wg.Wait()\<close> returns when the counter is 0; the pumps
  that would bring it there are other goroutines, which do not run inside the call, so with a
  counter above 0 the call does not return: \<open>None\<close>. A receive from a nil channel is never
  ready, so the \<open>select\<close> takes its default branch for a nil \<open>done\<close> and closes it.
\<close>

definition Destroy :: "env \<Rightarrow> process \<Rightarrow> process outcome option" where
  "Destroy E st =
     (let st1 = CloseListener st
      in case (case done_chan st1 of
                 ClosedChan \<Rightarrow> Returned st1
               | OpenChan \<Rightarrow> Returned (st1\<lparr>done_chan := ClosedChan\<rparr>)
               | NilChan \<Rightarrow> Panicked CloseOfNilChannel) of
           Panicked p \<Rightarrow> Some (Panicked p)
         | Returned st2 \<Rightarrow>
             if wg st2 \<noteq> 0 then None
             else (case Destroy_loop E (registryUrls st2) st2 of
                     Panicked p \<Rightarrow> Some (Panicked p)
                   | Returned st3 \<Rightarrow>
                       Some (Returned (CloseAndNilClient (st3\<lparr>registryUrls := []\<rparr>)))))"

subsection \<open>Calls of Destroy that run at the same time\<close>

text \<open>
  \<open>Destroy\<close> takes no lock. When several goroutines run it, each is at one of its statements,
  and a step of the process is one statement of one of them: the poll of \<open>done\<close> by the
  \<open>select\<close> and the \<open>close\<close> in its default branch are two statements, and so are the test of
  \<open>CloseAndNilClient\<close> and its body. The \<open>range\<close> loop evaluates \<open>nr.registryUrls\<close> once, on
  entry, and goes through that slice.
\<close>

datatype destroy_pc =
  At_CloseListener
  | At_select
  | At_close
  | At_Wait
  | At_range "URL list"
  | At_clear
  | At_CloseAndNilClient
  | At_CloseClient
  | At_return

fun Destroy_step :: "env \<Rightarrow> destroy_pc \<Rightarrow> process \<Rightarrow> (destroy_pc \<times> process) outcome" where
  "Destroy_step E At_CloseListener st = Returned (At_select, CloseListener st)"
| "Destroy_step E At_select st =
     (if done_chan st = ClosedChan then Returned (At_Wait, st) else Returned (At_close, st))"
| "Destroy_step E At_close st =
     (case done_chan st of
        OpenChan \<Rightarrow> Returned (At_Wait, st\<lparr>done_chan := ClosedChan\<rparr>)
      | ClosedChan \<Rightarrow> Panicked CloseOfClosedChannel
      | NilChan \<Rightarrow> Panicked CloseOfNilChannel)"
| "Destroy_step E At_Wait st =
     (if wg st \<noteq> 0 then Returned (At_Wait, st) else Returned (At_range (registryUrls st), st))"
| "Destroy_step E (At_range []) st = Returned (At_clear, st)"
| "Destroy_step E (At_range (url # urls)) st =
     (case Destroy_body E url st of
        Panicked p \<Rightarrow> Panicked p
      | Returned st1 \<Rightarrow> Returned (At_range urls, st1))"
| "Destroy_step E At_clear st = Returned (At_CloseAndNilClient, st\<lparr>registryUrls := []\<rparr>)"
| "Destroy_step E At_CloseAndNilClient st =
     (case namingClient st of
        None \<Rightarrow> Returned (At_return, st)
      | Some nc \<Rightarrow>
          (case client nc of
             None \<Rightarrow> Returned (At_return, st)
           | Some c \<Rightarrow> Returned (At_CloseClient, st)))"
| "Destroy_step E At_CloseClient st =
     (case Client st of
        Panicked p \<Rightarrow> Panicked p
      | Returned c \<Rightarrow>
          Returned (At_return, (backend_called CloseClient_call st)\<lparr>namingClient := None\<rparr>))"
| "Destroy_step E At_return st = Returned (At_return, st)"

text \<open>
  A schedule names, step after step, the goroutine that moves. The run stops at the first
  panic, which in Go ends the process.
\<close>

fun run_Destroy ::
  "env \<Rightarrow> nat list \<Rightarrow> destroy_pc list \<Rightarrow> process \<Rightarrow> (destroy_pc list \<times> process) outcome" where
  "run_Destroy E [] pcs st = Returned (pcs, st)"
| "run_Destroy E (i # schedule) pcs st =
     (if i < length pcs
      then (case Destroy_step E (pcs ! i) st of
              Panicked p \<Rightarrow> Panicked p
            | Returned (pc, st1) \<Rightarrow> run_Destroy E schedule (pcs[i := pc]) st1)
      else run_Destroy E schedule pcs st)"

subsection \<open>What the claims speak of\<close>

text \<open>
  The tuple a service identity is composed from, and the tuples on which the composition can
  be inverted: category, interface and version hold no separator, and interface, version and
  group are empty or hold a byte that is not white space.
\<close>

definition identity_tuple :: "env \<Rightarrow> URL \<Rightarrow> string outcome \<times> string \<times> string \<times> string" where
  "identity_tuple E url =
     (getCategory E url, GetParam url (InterfaceKey E) [], GetParam url (VersionKey E) [],
      GetParam url (GroupKey E) [])"

definition kept :: "string \<Rightarrow> bool" where
  "kept v = (v = [] \<or> \<not> TrimSpace_is_empty v)"

definition plain_identity :: "env \<Rightarrow> URL \<Rightarrow> bool" where
  "plain_identity E url =
     ((case getCategory E url of
         Panicked p \<Rightarrow> False
       | Returned category \<Rightarrow> NacosServiceNameSeparator \<notin> set category)
      \<and> NacosServiceNameSeparator \<notin> set (GetParam url (InterfaceKey E) [])
      \<and> NacosServiceNameSeparator \<notin> set (GetParam url (VersionKey E) [])
      \<and> kept (GetParam url (InterfaceKey E) [])
      \<and> kept (GetParam url (VersionKey E) [])
      \<and> kept (GetParam url (GroupKey E) []))"











subsection \<open>A process to run the registry in\<close>

text \<open>
  The values dubbo-go gives the parameters, a clock that stands still, handles that produce
  nothing, a parser that knows four strings, and a backend that accepts every call and lists
  the two services of the scenario.
\<close>

definition parse_four :: "string \<Rightarrow> float64 \<times> error" where
  "parse_four s =
     (if s = ''0'' then (Finite 0, None)
      else if s = ''1.0'' then (Finite 1, None)
      else if s = ''5.5'' then (Finite (55 / 10), None)
      else if s = ''20000'' then (Finite 20000, None)
      else (Finite 0, Some ''strconv.ParseFloat: invalid syntax''))"

definition E0 :: env where
  "E0 = \<lparr>InterfaceKey = ''interface'', VersionKey = ''version'', GroupKey = ''group'',
          RegistryRoleKey = ''registry.role'', WeightKey = ''weight'', CategoryKey = ''category'',
          NacosGroupKey = ''nacos.group'', RegistryGroupKey = ''registry.group'',
          NacosCategoryKey = ''category'', NacosProtocolKey = ''protocol'',
          NacosPathKey = ''path'', MethodsKey = ''methods'', DefaultCategory = ''providers'',
          AnyValue = ''*'', defaultGroup = ''DEFAULT_GROUP'', NacosDefaultRoleType = 3,
          CONSUMER = 0,
          DubboNodes = [''consumers'', ''configurators'', ''routers'', ''providers''],
          MinNacosWeight = Finite 0, ipToRegistry = Ip, portToRegistry = Port,
          getSubscribeName = (\<lambda>url. ''providers:'' @ GetParam url ''interface'' [] @ ''::''),
          ParseFloat = parse_four, clock = (\<lambda>k. 1000000000000),
          produced = (\<lambda>h k. None)\<rparr>"

definition fake_backend :: INamingClient where
  "fake_backend =
     \<lparr>RegisterInstance = (\<lambda>k param. (True, None)),
      DeregisterInstance = (\<lambda>k param. (True, None)),
      GetAllServicesInfo =
        (\<lambda>k group pageNo pageSize.
           ([''providers:com.foo.Bar:1.0:g1'', ''consumers:com.foo.Bar:1.0:g1''], None)),
      Subscribe_backend = (\<lambda>k serviceName group. None)\<rparr>"

definition endpoint :: "(string \<times> string) list \<Rightarrow> URL" where
  "endpoint ps = \<lparr>Protocol = ''dubbo'', Path = ''com.foo.Bar'', Ip = ''10.0.0.1'',
                  Port = ''20000'', Methods = [''hello''], params = ps\<rparr>"

text \<open>
  The registry as \<open>newNacosRegistry\<close> builds it around a client (an empty ledger, \<open>done\<close> made,
  the zero \<open>lastCheckTime\<close>, which is the time 0), in a process that has done nothing yet.
\<close>

definition fresh :: "NacosNamingClient option \<Rightarrow> process" where
  "fresh nc =
     \<lparr>regURL = endpoint [], namingClient = nc, registryUrls = [], done_chan = OpenChan,
      availability = \<lparr>lastAvailable = False, lastCheckTime = 0\<rparr>, wg = 0,
      listenerCache = [], listeners = [], trace = [], ticks = 0, logs = [], metrics = [],
      notified = [], goroutines = []\<rparr>"

definition fake_client :: "NacosNamingClient option" where
  "fake_client = Some \<lparr>client = Some fake_backend\<rparr>"







section \<open>Properties\<close>

subsection \<open>The nil tests and the client\<close>


lemma IsAvailable_Client:
  "IsAvailable E st =
     (if done_chan st = ClosedChan then (False, st)
      else
        (let (now1, st1) = time_Now E st
         in if now1 - lastCheckTime (availability st1) < checkInterval
            then (lastAvailable (availability st1), st1)
            else
              (let (now2, st2) = time_Now E st1;
                   st3 = st2\<lparr>availability := (availability st2)\<lparr>lastCheckTime := now2\<rparr>\<rparr>
               in case Client st3 of
                    Panicked p \<Rightarrow>
                      (False, st3\<lparr>availability := (availability st3)\<lparr>lastAvailable := False\<rparr>\<rparr>)
                  | Returned c \<Rightarrow>
                      (let group = GetParam (regURL st3) (RegistryGroupKey E) (defaultGroup E);
                           (services, err) = GetAllServicesInfo c (length (trace st3)) group 1 1;
                           st4 = backend_called (GetAllServicesInfo_call group 1 1) st3;
                           st5 = st4\<lparr>availability :=
                                   (availability st4)\<lparr>lastAvailable := (err = None)\<rparr>\<rparr>
                       in (err = None, st5)))))"
  by (simp add: IsAvailable_def Client_def Let_def split: option.splits prod.splits)

lemma listenService_Client:
  "listenService E listener serviceName st =
     (case Client st of
        Panicked p \<Rightarrow> (Some ''nacos naming client stopped'', st)
      | Returned c \<Rightarrow>
          (let group = GetParam (regURL st) (RegistryGroupKey E) (defaultGroup E);
               err = Subscribe_backend c (length (trace st)) serviceName group;
               st1 = backend_called (Subscribe_call serviceName group) st
           in if err \<noteq> None then (err, st1)
              else (None,
                    st1\<lparr>listenerCache :=
                          cache_Store (serviceName @ group) listener (listenerCache st1)\<rparr>)))"
  by (simp add: listenService_def Client_def Let_def split: option.splits)


subsection \<open>Service identity\<close>

lemma cut_at_separator:
  assumes "c \<notin> set a" and "c \<notin> set b" and "a @ c # r = b @ c # r'"
  shows "a = b \<and> r = r'"
proof -
  have "takeWhile (\<lambda>x. x \<noteq> c) (a @ c # r) = a"
    using assms(1) by (auto simp: takeWhile_tail)
  moreover have "takeWhile (\<lambda>x. x \<noteq> c) (b @ c # r') = b"
    using assms(2) by (auto simp: takeWhile_tail)
  ultimately have "a = b" using assms(3) by simp
  with assms(3) show ?thesis by simp
qed

lemma appendParam_kept:
  "kept (GetParam url key []) \<Longrightarrow>
   appendParam E target url key = target @ NacosServiceNameSeparator # GetParam url key []"
  by (auto simp: appendParam_def kept_def Let_def)

lemma getServiceName_plain:
  assumes "plain_identity E url"
  shows "\<exists>category. getCategory E url = Returned category
     \<and> NacosServiceNameSeparator \<notin> set category
     \<and> getServiceName E url =
         Returned (category @ NacosServiceNameSeparator # GetParam url (InterfaceKey E) []
           @ NacosServiceNameSeparator # GetParam url (VersionKey E) []
           @ NacosServiceNameSeparator # GetParam url (GroupKey E) [])"
  using assms
  by (auto simp: plain_identity_def getServiceName_def appendParam_kept Let_def
           split: outcome.splits)

lemma getServiceName_tuple:
  "identity_tuple E u1 = identity_tuple E u2 \<Longrightarrow> getServiceName E u1 = getServiceName E u2"
  by (auto simp: identity_tuple_def getServiceName_def appendParam_def Let_def
           split: outcome.splits)

text \<open>
  C5, as amended. The service identity is a function of the tuple (category, interface,
  version, group) alone: two URLs with the same tuple have the same identity, byte for byte,
  whatever else they hold. It is injective on the tuples whose category, interface and version
  hold no separator and whose interface, version and group are empty or not made of white
  space only: two such URLs with the same identity have the same tuple.
\<close>

theorem service_identity_stable_injective:
  "(identity_tuple E u1 = identity_tuple E u2 \<longrightarrow> getServiceName E u1 = getServiceName E u2)
   \<and> (plain_identity E u1 \<and> plain_identity E u2 \<and> getServiceName E u1 = getServiceName E u2
        \<longrightarrow> identity_tuple E u1 = identity_tuple E u2)"
proof (intro conjI impI)
  assume "identity_tuple E u1 = identity_tuple E u2"
  then show "getServiceName E u1 = getServiceName E u2" by (rule getServiceName_tuple)
next
  assume h: "plain_identity E u1 \<and> plain_identity E u2 \<and> getServiceName E u1 = getServiceName E u2"
  from h obtain c1 where c1: "getCategory E u1 = Returned c1" "NacosServiceNameSeparator \<notin> set c1"
    and n1: "getServiceName E u1 =
         Returned (c1 @ NacosServiceNameSeparator # GetParam u1 (InterfaceKey E) []
           @ NacosServiceNameSeparator # GetParam u1 (VersionKey E) []
           @ NacosServiceNameSeparator # GetParam u1 (GroupKey E) [])"
    using getServiceName_plain by blast
  from h obtain c2 where c2: "getCategory E u2 = Returned c2" "NacosServiceNameSeparator \<notin> set c2"
    and n2: "getServiceName E u2 =
         Returned (c2 @ NacosServiceNameSeparator # GetParam u2 (InterfaceKey E) []
           @ NacosServiceNameSeparator # GetParam u2 (VersionKey E) []
           @ NacosServiceNameSeparator # GetParam u2 (GroupKey E) [])"
    using getServiceName_plain by blast
  from h n1 n2 have eq: "c1 @ NacosServiceNameSeparator # GetParam u1 (InterfaceKey E) []
           @ NacosServiceNameSeparator # GetParam u1 (VersionKey E) []
           @ NacosServiceNameSeparator # GetParam u1 (GroupKey E) []
         = c2 @ NacosServiceNameSeparator # GetParam u2 (InterfaceKey E) []
           @ NacosServiceNameSeparator # GetParam u2 (VersionKey E) []
           @ NacosServiceNameSeparator # GetParam u2 (GroupKey E) []" by simp
  from cut_at_separator [OF c1(2) c2(2) eq]
  have s1: "c1 = c2" and eq2: "GetParam u1 (InterfaceKey E) []
           @ NacosServiceNameSeparator # GetParam u1 (VersionKey E) []
           @ NacosServiceNameSeparator # GetParam u1 (GroupKey E) []
         = GetParam u2 (InterfaceKey E) []
           @ NacosServiceNameSeparator # GetParam u2 (VersionKey E) []
           @ NacosServiceNameSeparator # GetParam u2 (GroupKey E) []" by simp_all
  from h have i1: "NacosServiceNameSeparator \<notin> set (GetParam u1 (InterfaceKey E) [])"
    and i2: "NacosServiceNameSeparator \<notin> set (GetParam u2 (InterfaceKey E) [])"
    and v1: "NacosServiceNameSeparator \<notin> set (GetParam u1 (VersionKey E) [])"
    and v2: "NacosServiceNameSeparator \<notin> set (GetParam u2 (VersionKey E) [])"
    by (simp_all add: plain_identity_def)
  from cut_at_separator [OF i1 i2 eq2]
  have s2: "GetParam u1 (InterfaceKey E) [] = GetParam u2 (InterfaceKey E) []"
    and eq3: "GetParam u1 (VersionKey E) [] @ NacosServiceNameSeparator # GetParam u1 (GroupKey E) []
         = GetParam u2 (VersionKey E) [] @ NacosServiceNameSeparator # GetParam u2 (GroupKey E) []"
    by simp_all
  from cut_at_separator [OF v1 v2 eq3]
  have s3: "GetParam u1 (VersionKey E) [] = GetParam u2 (VersionKey E) []"
    and s4: "GetParam u1 (GroupKey E) [] = GetParam u2 (GroupKey E) []" by simp_all
  show "identity_tuple E u1 = identity_tuple E u2"
    using s1 s2 s3 s4 c1(1) c2(1) by (simp add: identity_tuple_def)
qed

text \<open>
  The theorem at two URLs that give the same tuple in a different order of parameters, one of
  them with a weight.
\<close>

theorem service_identity_stable_injective_witness:
  "plain_identity E0 (endpoint [(''interface'', ''com.foo.Bar''), (''version'', ''1.0''),
       (''group'', ''g1'')])
   \<and> plain_identity E0 (endpoint [(''weight'', ''5''), (''group'', ''g1''),
       (''version'', ''1.0''), (''interface'', ''com.foo.Bar'')])
   \<and> getServiceName E0 (endpoint [(''interface'', ''com.foo.Bar''), (''version'', ''1.0''),
       (''group'', ''g1'')])
     = getServiceName E0 (endpoint [(''weight'', ''5''), (''group'', ''g1''),
       (''version'', ''1.0''), (''interface'', ''com.foo.Bar'')])
   \<and> identity_tuple E0 (endpoint [(''interface'', ''com.foo.Bar''), (''version'', ''1.0''),
       (''group'', ''g1'')])
     = identity_tuple E0 (endpoint [(''weight'', ''5''), (''group'', ''g1''),
       (''version'', ''1.0''), (''interface'', ''com.foo.Bar'')])"
proof -
  let ?a = "endpoint [(''interface'', ''com.foo.Bar''), (''version'', ''1.0''), (''group'', ''g1'')]"
  let ?b = "endpoint [(''weight'', ''5''), (''group'', ''g1''), (''version'', ''1.0''),
       (''interface'', ''com.foo.Bar'')]"
  have t: "identity_tuple E0 ?a = identity_tuple E0 ?b" by code_simp
  have pa: "plain_identity E0 ?a" by code_simp
  have pb: "plain_identity E0 ?b" by code_simp
  from service_identity_stable_injective [of E0 ?a ?b] t
  have n: "getServiceName E0 ?a = getServiceName E0 ?b" by blast
  from service_identity_stable_injective [of E0 ?a ?b] pa pb n
  have "identity_tuple E0 ?a = identity_tuple E0 ?b" by blast
  with pa pb n show ?thesis by blast
qed

text \<open>
  C5 as it is written fails: an interface \<open>a:b\<close> with the version \<open>c\<close> and an interface \<open>a\<close>
  with the version \<open>b:c\<close> are two tuples with the one identity \<open>providers:a:b:c:\<close>.
\<close>

theorem service_identity_collision:
  "identity_tuple E0 (endpoint [(''interface'', ''a:b''), (''version'', ''c'')])
     \<noteq> identity_tuple E0 (endpoint [(''interface'', ''a''), (''version'', ''b:c'')])
   \<and> getServiceName E0 (endpoint [(''interface'', ''a:b''), (''version'', ''c'')])
     = getServiceName E0 (endpoint [(''interface'', ''a''), (''version'', ''b:c'')])"
  by code_simp

subsection \<open>The weight of the registration record\<close>

lemma GetParam_HandleRegisterIPAndPort:
  "GetParam (HandleRegisterIPAndPort E url) key d = GetParam url key d"
  by (simp add: GetParam_def HandleRegisterIPAndPort_def)

text \<open>
  C4. Whenever \<open>createRegisterParam\<close> builds a record for a URL, and the weight parameter of
  the URL (\<open>1.0\<close> when there is none) parses to \<open>weight\<close> with the error \<open>err\<close>: the record
  stores 1.0 when the parse failed or the value is at or below the minimum; otherwise it
  stores 10000 when the value is above 10000; otherwise it stores the value.
\<close>

theorem weight_normalization:
  assumes "createRegisterParam E url serviceName groupName = Returned (param, url1)"
    and "ParseFloat E (GetParam url (WeightKey E) ''1.0'') = (weight, err)"
  shows "(err \<noteq> None \<or> f64_le weight (MinNacosWeight E) \<longrightarrow> r_Weight param = Finite 1)
    \<and> (err = None \<and> \<not> f64_le weight (MinNacosWeight E) \<and> f64_gt weight (Finite 10000)
         \<longrightarrow> r_Weight param = Finite 10000)
    \<and> (err = None \<and> \<not> f64_le weight (MinNacosWeight E) \<and> \<not> f64_gt weight (Finite 10000)
         \<longrightarrow> r_Weight param = weight)"
proof -
  from assms(1) have "r_Weight param = registerWeight E (HandleRegisterIPAndPort E url)"
    by (auto simp: createRegisterParam_def Let_def split: outcome.splits)
  then have "r_Weight param =
      (if err \<noteq> None \<or> f64_le weight (MinNacosWeight E) then DefaultNacosWeight
       else if f64_gt weight MaxNacosWeight then MaxNacosWeight else weight)"
    using assms(2) by (simp add: registerWeight_def GetParam_HandleRegisterIPAndPort Let_def)
  then show ?thesis
    by (simp add: DefaultNacosWeight_def MaxNacosWeight_def)
qed

lemma Atoi_Itoa_3: "Atoi (Itoa 3) = 3"
  by code_simp

lemma getCategory_E0_default:
  "map_of ps ''registry.role'' = None \<Longrightarrow> getCategory E0 (endpoint ps) = Returned ''providers''"
  by (simp add: getCategory_def Let_def E0_def GetParam_def endpoint_def Atoi_Itoa_3)

lemma createRegisterParam_E0:
  "\<exists>p u. createRegisterParam E0 (endpoint [(''weight'', w)]) s g = Returned (p, u)"
  by (simp add: createRegisterParam_def getCategory_E0_default Let_def)

lemma weight_param_E0:
  "w \<noteq> [] \<Longrightarrow> GetParam (endpoint [(''weight'', w)]) (WeightKey E0) ''1.0'' = w"
  by (simp add: E0_def GetParam_def endpoint_def)

text \<open>
  The four weights of the claim, with the minimum 0 of dubbo-go and what \<open>strconv.ParseFloat\<close>
  gives for the four strings: \<open>abc\<close> stores 1.0, \<open>0\<close> stores 1.0, \<open>20000\<close> stores 10000 and
  \<open>5.5\<close> stores 5.5.
\<close>

theorem weight_normalization_examples:
  "(\<exists>p u. createRegisterParam E0 (endpoint [(''weight'', ''abc'')]) ''s'' ''g'' = Returned (p, u)
       \<and> r_Weight p = Finite 1)
   \<and> (\<exists>p u. createRegisterParam E0 (endpoint [(''weight'', ''0'')]) ''s'' ''g'' = Returned (p, u)
       \<and> r_Weight p = Finite 1)
   \<and> (\<exists>p u. createRegisterParam E0 (endpoint [(''weight'', ''20000'')]) ''s'' ''g'' = Returned (p, u)
       \<and> r_Weight p = Finite 10000)
   \<and> (\<exists>p u. createRegisterParam E0 (endpoint [(''weight'', ''5.5'')]) ''s'' ''g'' = Returned (p, u)
       \<and> r_Weight p = Finite (55 / 10))"
proof (intro conjI)
  obtain p u where c: "createRegisterParam E0 (endpoint [(''weight'', ''abc'')]) ''s'' ''g'' = Returned (p, u)"
    using createRegisterParam_E0 by blast
  have "ParseFloat E0 (GetParam (endpoint [(''weight'', ''abc'')]) (WeightKey E0) ''1.0'')
      = (Finite 0, Some ''strconv.ParseFloat: invalid syntax'')"
    by (simp add: weight_param_E0) (simp add: E0_def parse_four_def)
  from weight_normalization [OF c this] have "r_Weight p = Finite 1" by simp
  with c show "\<exists>p u. createRegisterParam E0 (endpoint [(''weight'', ''abc'')]) ''s'' ''g'' = Returned (p, u)
       \<and> r_Weight p = Finite 1" by blast
next
  obtain p u where c: "createRegisterParam E0 (endpoint [(''weight'', ''0'')]) ''s'' ''g'' = Returned (p, u)"
    using createRegisterParam_E0 by blast
  have "ParseFloat E0 (GetParam (endpoint [(''weight'', ''0'')]) (WeightKey E0) ''1.0'')
      = (Finite 0, None)"
    by (simp add: weight_param_E0) (simp add: E0_def parse_four_def)
  from weight_normalization [OF c this] have "r_Weight p = Finite 1" by (simp add: E0_def)
  with c show "\<exists>p u. createRegisterParam E0 (endpoint [(''weight'', ''0'')]) ''s'' ''g'' = Returned (p, u)
       \<and> r_Weight p = Finite 1" by blast
next
  obtain p u where c: "createRegisterParam E0 (endpoint [(''weight'', ''20000'')]) ''s'' ''g'' = Returned (p, u)"
    using createRegisterParam_E0 by blast
  have "ParseFloat E0 (GetParam (endpoint [(''weight'', ''20000'')]) (WeightKey E0) ''1.0'')
      = (Finite 20000, None)"
    by (simp add: weight_param_E0) (simp add: E0_def parse_four_def)
  from weight_normalization [OF c this] have "r_Weight p = Finite 10000" by (simp add: E0_def)
  with c show "\<exists>p u. createRegisterParam E0 (endpoint [(''weight'', ''20000'')]) ''s'' ''g'' = Returned (p, u)
       \<and> r_Weight p = Finite 10000" by blast
next
  obtain p u where c: "createRegisterParam E0 (endpoint [(''weight'', ''5.5'')]) ''s'' ''g'' = Returned (p, u)"
    using createRegisterParam_E0 by blast
  have "ParseFloat E0 (GetParam (endpoint [(''weight'', ''5.5'')]) (WeightKey E0) ''1.0'')
      = (Finite (55 / 10), None)"
    by (simp add: weight_param_E0) (simp add: E0_def parse_four_def)
  from weight_normalization [OF c this] have "r_Weight p = Finite (55 / 10)" by (simp add: E0_def)
  with c show "\<exists>p u. createRegisterParam E0 (endpoint [(''weight'', ''5.5'')]) ''s'' ''g'' = Returned (p, u)
       \<and> r_Weight p = Finite (55 / 10)" by blast
qed

subsection \<open>IsAvailable\<close>

lemma frame_IsAvailable:
  assumes "IsAvailable E st = (a, st')"
  shows "listeners st' = listeners st" "listenerCache st' = listenerCache st"
    "goroutines st' = goroutines st" "wg st' = wg st" "notified st' = notified st"
    "registryUrls st' = registryUrls st" "done_chan st' = done_chan st"
    "namingClient st' = namingClient st" "regURL st' = regURL st" "logs st' = logs st"
    "metrics st' = metrics st"
  using assms
  by (auto simp: IsAvailable_Client time_Now_def backend_called_def Let_def
           split: if_splits prod.splits outcome.splits)

text \<open>
  C2. Let a call of \<open>IsAvailable\<close> return \<open>a\<close> and leave the state \<open>st1\<close>, and a second call,
  from \<open>st1\<close>, return \<open>b\<close> and leave \<open>st2\<close>. When \<open>done\<close> is closed the call returns false and
  changes nothing. Otherwise, when the clock read less than 5 s after \<open>lastCheckTime\<close>, it
  returns the cached value with no backend call. Otherwise \<open>lastCheckTime\<close> becomes the next
  reading of the clock whatever follows, the value returned is the value cached, a nil client
  gives false with no backend call, and a client gives one listing call with the page size 1
  and the value "the call gave no error"; and when the second call reads the clock less than
  5 s after that, it returns the same value with no backend call.
\<close>

theorem IsAvailable_cached_probe:
  assumes "IsAvailable E st = (a, st1)" and "IsAvailable E st1 = (b, st2)"
  shows "(done_chan st = ClosedChan \<longrightarrow> a = False \<and> st1 = st)
    \<and> (done_chan st \<noteq> ClosedChan
         \<and> clock E (ticks st) - lastCheckTime (availability st) < 5 * 1000000000
       \<longrightarrow> a = lastAvailable (availability st) \<and> trace st1 = trace st
           \<and> availability st1 = availability st)
    \<and> (done_chan st \<noteq> ClosedChan
         \<and> \<not> clock E (ticks st) - lastCheckTime (availability st) < 5 * 1000000000
       \<longrightarrow> lastCheckTime (availability st1) = clock E (Suc (ticks st))
           \<and> lastAvailable (availability st1) = a
           \<and> (nil_client st \<longrightarrow> a = False \<and> trace st1 = trace st)
           \<and> (\<forall>c. Client st = Returned c \<longrightarrow>
                 trace st1 = trace st @
                   [GetAllServicesInfo_call
                      (GetParam (regURL st) (RegistryGroupKey E) (defaultGroup E)) 1 1]
                 \<and> a = (snd (GetAllServicesInfo c (length (trace st))
                             (GetParam (regURL st) (RegistryGroupKey E) (defaultGroup E)) 1 1)
                        = None))
           \<and> (clock E (Suc (Suc (ticks st))) - clock E (Suc (ticks st)) < 5 * 1000000000
                \<longrightarrow> b = a \<and> trace st2 = trace st1))"
proof -
  have p1: "a = False \<and> st1 = st" if "done_chan st = ClosedChan"
    using that assms(1) by (auto simp: IsAvailable_Client)
  have p2: "a = lastAvailable (availability st) \<and> trace st1 = trace st
           \<and> availability st1 = availability st"
    if "done_chan st \<noteq> ClosedChan
         \<and> clock E (ticks st) - lastCheckTime (availability st) < 5 * 1000000000"
    using that assms(1)
    by (auto simp: IsAvailable_Client time_Now_def checkInterval_def Let_def)
  have p3: "lastCheckTime (availability st1) = clock E (Suc (ticks st))
           \<and> lastAvailable (availability st1) = a
           \<and> (nil_client st \<longrightarrow> a = False \<and> trace st1 = trace st)
           \<and> (\<forall>c. Client st = Returned c \<longrightarrow>
                 trace st1 = trace st @
                   [GetAllServicesInfo_call
                      (GetParam (regURL st) (RegistryGroupKey E) (defaultGroup E)) 1 1]
                 \<and> a = (snd (GetAllServicesInfo c (length (trace st))
                             (GetParam (regURL st) (RegistryGroupKey E) (defaultGroup E)) 1 1)
                        = None))
           \<and> (clock E (Suc (Suc (ticks st))) - clock E (Suc (ticks st)) < 5 * 1000000000
                \<longrightarrow> b = a \<and> trace st2 = trace st1)"
    if h: "done_chan st \<noteq> ClosedChan
         \<and> \<not> clock E (ticks st) - lastCheckTime (availability st) < 5 * 1000000000"
  proof -
    from h assms(1) have t: "lastCheckTime (availability st1) = clock E (Suc (ticks st))"
      by (auto simp: IsAvailable_Client time_Now_def checkInterval_def backend_called_def Let_def
               split: outcome.splits prod.splits)
    from h assms(1) have la: "lastAvailable (availability st1) = a"
      by (auto simp: IsAvailable_Client time_Now_def checkInterval_def backend_called_def Let_def
               split: outcome.splits prod.splits)
    from h assms(1) have np: "nil_client st \<longrightarrow> a = False \<and> trace st1 = trace st"
      by (auto simp: IsAvailable_Client time_Now_def checkInterval_def Client_def nil_client_def
                     Let_def
               split: outcome.splits prod.splits option.splits)
    from h assms(1) have pr: "\<forall>c. Client st = Returned c \<longrightarrow>
                 trace st1 = trace st @
                   [GetAllServicesInfo_call
                      (GetParam (regURL st) (RegistryGroupKey E) (defaultGroup E)) 1 1]
                 \<and> a = (snd (GetAllServicesInfo c (length (trace st))
                             (GetParam (regURL st) (RegistryGroupKey E) (defaultGroup E)) 1 1)
                        = None)"
      by (auto simp: IsAvailable_Client time_Now_def checkInterval_def Client_def backend_called_def
                     Let_def
               split: outcome.splits prod.splits option.splits)
    have d1: "done_chan st1 = done_chan st" using assms(1) by (rule frame_IsAvailable)
    from h assms(1) have k: "ticks st1 = Suc (Suc (ticks st))"
      by (auto simp: IsAvailable_Client time_Now_def checkInterval_def backend_called_def Let_def
               split: outcome.splits prod.splits)
    have "b = a \<and> trace st2 = trace st1"
      if w: "clock E (Suc (Suc (ticks st))) - clock E (Suc (ticks st)) < 5 * 1000000000"
    proof -
      from assms(2) h d1 k t w have "b = lastAvailable (availability st1) \<and> trace st2 = trace st1"
        by (auto simp: IsAvailable_Client time_Now_def checkInterval_def Let_def)
      with la show ?thesis by simp
    qed
    with t la np pr show ?thesis by blast
  qed
  from p1 p2 p3 show ?thesis by blast
qed

lemma IsAvailable_fresh:
  "IsAvailable E0 (fresh fake_client) =
     (True, (fresh fake_client)\<lparr>ticks := 2,
        availability := \<lparr>lastAvailable = True, lastCheckTime = 1000000000000\<rparr>,
        trace := [GetAllServicesInfo_call ''DEFAULT_GROUP'' 1 1]\<rparr>)"
  by (simp add: IsAvailable_Client fresh_def fake_client_def fake_backend_def E0_def time_Now_def
        checkInterval_def Client_def backend_called_def GetParam_def endpoint_def Let_def)

text \<open>
  The theorem on a new registry with a backend that answers: the first call probes and gives
  true, the second gives true again, and the two calls made one probe.
\<close>

theorem IsAvailable_cached_probe_witness:
  "fst (IsAvailable E0 (fresh fake_client)) = True
   \<and> fst (IsAvailable E0 (snd (IsAvailable E0 (fresh fake_client)))) = True
   \<and> trace (snd (IsAvailable E0 (snd (IsAvailable E0 (fresh fake_client)))))
       = [GetAllServicesInfo_call ''DEFAULT_GROUP'' 1 1]"
proof -
  let ?st = "fresh fake_client"
  let ?r1 = "IsAvailable E0 ?st"
  let ?r2 = "IsAvailable E0 (snd ?r1)"
  have a: "?r1 = (fst ?r1, snd ?r1)" and b: "?r2 = (fst ?r2, snd ?r2)" by simp_all
  have c: "Client ?st = Returned fake_backend"
    by (simp add: Client_def fresh_def fake_client_def)
  have d: "done_chan ?st \<noteq> ClosedChan
      \<and> \<not> clock E0 (ticks ?st) - lastCheckTime (availability ?st) < 5 * 1000000000"
    by (simp add: fresh_def E0_def)
  have w: "clock E0 (Suc (Suc (ticks ?st))) - clock E0 (Suc (ticks ?st)) < 5 * 1000000000"
    by (simp add: E0_def)
  have g: "GetParam (regURL ?st) (RegistryGroupKey E0) (defaultGroup E0) = ''DEFAULT_GROUP''"
    by (simp add: fresh_def E0_def GetParam_def endpoint_def)
  have t: "trace ?st = []" by (simp add: fresh_def)
  have ok: "snd (GetAllServicesInfo fake_backend 0 ''DEFAULT_GROUP'' 1 1) = None"
    by (simp add: fake_backend_def)
  from IsAvailable_cached_probe [OF a b] c d w
  have "fst ?r1 = (snd (GetAllServicesInfo fake_backend (length (trace ?st))
                      (GetParam (regURL ?st) (RegistryGroupKey E0) (defaultGroup E0)) 1 1) = None)"
    and "trace (snd ?r1) = trace ?st @ [GetAllServicesInfo_call
                      (GetParam (regURL ?st) (RegistryGroupKey E0) (defaultGroup E0)) 1 1]"
    and "fst ?r2 = fst ?r1" and "trace (snd ?r2) = trace (snd ?r1)"
    by blast+
  then show ?thesis using g t ok by simp
qed

subsection \<open>Register\<close>

lemma createRegisterParam_url:
  "createRegisterParam E url serviceName groupName = Returned (param, url1) \<Longrightarrow>
   url1 = HandleRegisterIPAndPort E url"
  by (auto simp: createRegisterParam_def Let_def split: outcome.splits)

text \<open>
  C3. For every endpoint URL whose identity and record can be built, on a registry with a
  client, let the backend answer the register call with \<open>isRegistry\<close> and \<open>err\<close>. When the call
  failed, \<open>Register\<close> returns its error and the ledger is as before; when the call succeeded
  and the instance was not registered, \<open>Register\<close> returns the error that names the service
  and the ledger is as before; when it was registered, \<open>Register\<close> returns nil and the ledger
  is the one before with the endpoint appended.
\<close>

theorem Register_cases:
  assumes "Client st = Returned c"
    and "getServiceName E url = Returned serviceName"
    and "createRegisterParam E url serviceName
           (GetParam (regURL st) (NacosGroupKey E) (defaultGroup E)) = Returned (param, url1)"
    and "RegisterInstance c (length (trace st)) param = (isRegistry, err)"
  shows "(err \<noteq> None \<longrightarrow>
            (\<exists>st'. Register E url st = Returned (err, st')
                  \<and> registryUrls st' = registryUrls st))
    \<and> (err = None \<and> \<not> isRegistry \<longrightarrow>
            (\<exists>st'. Register E url st =
                    Returned (Some (''registry ['' @ serviceName @ ''] to  nacos failed''), st')
                  \<and> registryUrls st' = registryUrls st))
    \<and> (err = None \<and> isRegistry \<longrightarrow>
            (\<exists>st'. Register E url st = Returned (None, st')
                  \<and> registryUrls st' = registryUrls st @ [HandleRegisterIPAndPort E url]))"
  using assms createRegisterParam_url [OF assms(3)]
  by (auto simp: Register_def time_Now_def logger_def metrics_Publish_def backend_called_def
                 Client_def Let_def
           split: option.splits)

lemma getServiceName_Bar:
  "getServiceName E0 (endpoint [(''interface'', ''com.foo.Bar''), (''version'', ''1.0''),
       (''group'', ''g1'')]) = Returned ''providers:com.foo.Bar:1.0:g1''"
  by code_simp

lemma HandleRegisterIPAndPort_E0: "HandleRegisterIPAndPort E0 (endpoint ps) = endpoint ps"
  by (simp add: HandleRegisterIPAndPort_def E0_def endpoint_def)

lemma createRegisterParam_returns:
  "getServiceName E url = Returned n \<Longrightarrow>
   \<exists>p. createRegisterParam E url s g = Returned (p, HandleRegisterIPAndPort E url)"
  by (auto simp: createRegisterParam_def getServiceName_def Let_def split: outcome.splits)

text \<open>
  The theorem with a backend whose call fails, one that answers "not registered" and one that
  registers.
\<close>

theorem Register_cases_witness:
  "(\<exists>st'. Register E0 (endpoint [(''interface'', ''com.foo.Bar''), (''version'', ''1.0''),
              (''group'', ''g1'')])
            (fresh (Some \<lparr>client = Some (fake_backend
               \<lparr>RegisterInstance := (\<lambda>k p. (False, Some ''timeout''))\<rparr>)\<rparr>))
          = Returned (Some ''timeout'', st') \<and> registryUrls st' = [])
   \<and> (\<exists>st'. Register E0 (endpoint [(''interface'', ''com.foo.Bar''), (''version'', ''1.0''),
              (''group'', ''g1'')])
            (fresh (Some \<lparr>client = Some (fake_backend
               \<lparr>RegisterInstance := (\<lambda>k p. (False, None))\<rparr>)\<rparr>))
          = Returned (Some ''registry [providers:com.foo.Bar:1.0:g1] to  nacos failed'', st')
        \<and> registryUrls st' = [])
   \<and> (\<exists>st'. Register E0 (endpoint [(''interface'', ''com.foo.Bar''), (''version'', ''1.0''),
              (''group'', ''g1'')]) (fresh fake_client)
          = Returned (None, st')
        \<and> registryUrls st' = [endpoint [(''interface'', ''com.foo.Bar''), (''version'', ''1.0''),
              (''group'', ''g1'')]])"
proof -
  let ?u = "endpoint [(''interface'', ''com.foo.Bar''), (''version'', ''1.0''), (''group'', ''g1'')]"
  let ?b1 = "fake_backend\<lparr>RegisterInstance := (\<lambda>k p. (False, Some ''timeout''))\<rparr>"
  let ?b2 = "fake_backend\<lparr>RegisterInstance := (\<lambda>k p. (False, None))\<rparr>"
  have l: "\<And>nc. registryUrls (fresh nc) = []" by (simp add: fresh_def)
  have c: "\<And>b. Client (fresh (Some \<lparr>client = Some b\<rparr>)) = Returned b"
    by (simp add: Client_def fresh_def)
  obtain p1 where p1: "createRegisterParam E0 ?u ''providers:com.foo.Bar:1.0:g1''
      (GetParam (regURL (fresh (Some \<lparr>client = Some ?b1\<rparr>))) (NacosGroupKey E0) (defaultGroup E0))
      = Returned (p1, ?u)"
    using createRegisterParam_returns [OF getServiceName_Bar] HandleRegisterIPAndPort_E0
    by metis
  have r1: "RegisterInstance ?b1 (length (trace (fresh (Some \<lparr>client = Some ?b1\<rparr>)))) p1
      = (False, Some ''timeout'')" by simp
  obtain p2 where p2: "createRegisterParam E0 ?u ''providers:com.foo.Bar:1.0:g1''
      (GetParam (regURL (fresh (Some \<lparr>client = Some ?b2\<rparr>))) (NacosGroupKey E0) (defaultGroup E0))
      = Returned (p2, ?u)"
    using createRegisterParam_returns [OF getServiceName_Bar] HandleRegisterIPAndPort_E0
    by metis
  have r2: "RegisterInstance ?b2 (length (trace (fresh (Some \<lparr>client = Some ?b2\<rparr>)))) p2
      = (False, None)" by simp
  obtain p3 where p3: "createRegisterParam E0 ?u ''providers:com.foo.Bar:1.0:g1''
      (GetParam (regURL (fresh fake_client)) (NacosGroupKey E0) (defaultGroup E0))
      = Returned (p3, ?u)"
    using createRegisterParam_returns [OF getServiceName_Bar] HandleRegisterIPAndPort_E0
    by metis
  have c3: "Client (fresh fake_client) = Returned fake_backend"
    by (simp add: Client_def fresh_def fake_client_def)
  have r3: "RegisterInstance fake_backend (length (trace (fresh fake_client))) p3 = (True, None)"
    by (simp add: fake_backend_def)
  from Register_cases [OF c getServiceName_Bar p1 r1] l
  have "\<exists>st'. Register E0 ?u (fresh (Some \<lparr>client = Some ?b1\<rparr>)) = Returned (Some ''timeout'', st')
      \<and> registryUrls st' = []" by simp
  moreover from Register_cases [OF c getServiceName_Bar p2 r2] l
  have "\<exists>st'. Register E0 ?u (fresh (Some \<lparr>client = Some ?b2\<rparr>))
        = Returned (Some ''registry [providers:com.foo.Bar:1.0:g1] to  nacos failed'', st')
      \<and> registryUrls st' = []" by simp
  moreover from Register_cases [OF c3 getServiceName_Bar p3 r3] l HandleRegisterIPAndPort_E0
  have "\<exists>st'. Register E0 ?u (fresh fake_client) = Returned (None, st')
      \<and> registryUrls st' = [?u]" by simp
  ultimately show ?thesis by blast
qed

subsection \<open>subscribe\<close>

lemma frame_listenService:
  assumes "listenService E l n st = (err, st')"
  shows "listeners st' = listeners st" "goroutines st' = goroutines st" "wg st' = wg st"
    "notified st' = notified st" "registryUrls st' = registryUrls st"
    "done_chan st' = done_chan st" "namingClient st' = namingClient st" "regURL st' = regURL st"
    "logs st' = logs st" "metrics st' = metrics st" "availability st' = availability st"
    "ticks st' = ticks st"
  using assms
  by (auto simp: listenService_Client backend_called_def Let_def split: outcome.splits if_splits)

text \<open>
  C8. With an empty service name \<open>subscribe\<close> returns nil, logs the warning and creates no
  handle, starts no pump and makes no backend call. With a name, when \<open>IsAvailable\<close> gives
  false it returns the error "nacosRegistry is not available." and creates no handle, starts
  no pump and makes no listen call. With a name and \<open>IsAvailable\<close> true it creates one handle,
  for that name, and returns what the listen call on it returns: nil with one pump started
  and the wait group one higher, or the error of the call with no pump started.
\<close>

theorem subscribe_cases:
  assumes "IsAvailable E st = (available, st1)"
    and "subscribe E serviceName notifyListener st = (err, st')"
  shows "(serviceName = [] \<longrightarrow>
            err = None \<and> listeners st' = listeners st \<and> trace st' = trace st
            \<and> goroutines st' = goroutines st \<and> listenerCache st' = listenerCache st
            \<and> logs st' = logs st @ [Warnf ''can not subscribe because service name is empty'' []])
    \<and> (serviceName \<noteq> [] \<and> \<not> available \<longrightarrow>
            err = Some ''nacosRegistry is not available.'' \<and> listeners st' = listeners st
            \<and> trace st' = trace st1 \<and> goroutines st' = goroutines st
            \<and> listenerCache st' = listenerCache st)
    \<and> (serviceName \<noteq> [] \<and> available \<longrightarrow>
            listeners st' = listeners st @
              [\<lparr>l_serviceName = serviceName, l_closed = False, l_taken = 0\<rparr>]
            \<and> err = fst (listenService E (length (listeners st)) serviceName
                          (snd (NewNacosListenerWithServiceName serviceName st1)))
            \<and> (err = None \<longrightarrow>
                  goroutines st' = goroutines st @
                    [go_handleServiceEvents (length (listeners st)) notifyListener]
                  \<and> wg st' = wg st + 1)
            \<and> (err \<noteq> None \<longrightarrow> goroutines st' = goroutines st \<and> wg st' = wg st))"
proof -
  note f = frame_IsAvailable [OF assms(1)]
  have p1: ?thesis if "serviceName = []"
    using that assms(2) by (auto simp: subscribe_def logger_def)
  have p2: ?thesis if "serviceName \<noteq> []" "\<not> available"
    using that assms f by (auto simp: subscribe_def logger_def)
  have p3: ?thesis if n: "serviceName \<noteq> []" and a: "available"
  proof -
    obtain e st3 where ls: "listenService E (length (listeners st)) serviceName
        (snd (NewNacosListenerWithServiceName serviceName st1)) = (e, st3)"
      by (cases "listenService E (length (listeners st)) serviceName
        (snd (NewNacosListenerWithServiceName serviceName st1))") blast
    note g = frame_listenService [OF ls]
    from n a assms ls f g show ?thesis
      by (auto simp: subscribe_def logger_def metrics_Publish_def
                     NewNacosListenerWithServiceName_def Let_def
               split: option.splits)
  qed
  from p1 p2 p3 show ?thesis by blast
qed

lemma IsAvailable_closed:
  "done_chan st = ClosedChan \<Longrightarrow> IsAvailable E st = (False, st)"
  by (simp add: IsAvailable_Client)

text \<open>
  The theorem at the empty name, at a registry whose \<open>done\<close> is closed, and at a new registry
  with a backend that answers.
\<close>

theorem subscribe_cases_witness:
  "fst (subscribe E0 [] 0 (fresh fake_client)) = None
   \<and> listeners (snd (subscribe E0 [] 0 (fresh fake_client))) = []
   \<and> fst (subscribe E0 ''providers:com.foo.Bar:1.0:g1'' 0
            ((fresh fake_client)\<lparr>done_chan := ClosedChan\<rparr>))
       = Some ''nacosRegistry is not available.''
   \<and> listeners (snd (subscribe E0 ''providers:com.foo.Bar:1.0:g1'' 0
            ((fresh fake_client)\<lparr>done_chan := ClosedChan\<rparr>))) = []
   \<and> fst (subscribe E0 ''providers:com.foo.Bar:1.0:g1'' 0 (fresh fake_client)) = None
   \<and> listeners (snd (subscribe E0 ''providers:com.foo.Bar:1.0:g1'' 0 (fresh fake_client)))
       = [\<lparr>l_serviceName = ''providers:com.foo.Bar:1.0:g1'', l_closed = False, l_taken = 0\<rparr>]
   \<and> goroutines (snd (subscribe E0 ''providers:com.foo.Bar:1.0:g1'' 0 (fresh fake_client)))
       = [go_handleServiceEvents 0 0]"
proof -
  let ?n = "''providers:com.foo.Bar:1.0:g1''"
  let ?st = "fresh fake_client"
  let ?cl = "(fresh fake_client)\<lparr>done_chan := ClosedChan\<rparr>"
  have l: "listeners ?st = []" "goroutines ?st = []" "listeners ?cl = []"
    by (simp_all add: fresh_def)
  have s: "\<And>n st. subscribe E0 n 0 st = (fst (subscribe E0 n 0 st), snd (subscribe E0 n 0 st))"
    by simp
  have c: "IsAvailable E0 ?cl = (False, ?cl)" by (simp add: IsAvailable_closed)
  have ls: "fst (listenService E0 0 ?n
       (snd (NewNacosListenerWithServiceName ?n
         ((fresh fake_client)\<lparr>ticks := 2,
            availability := \<lparr>lastAvailable = True, lastCheckTime = 1000000000000\<rparr>,
            trace := [GetAllServicesInfo_call ''DEFAULT_GROUP'' 1 1]\<rparr>)))) = None"
    by (simp add: listenService_Client NewNacosListenerWithServiceName_def Client_def fresh_def
          fake_client_def fake_backend_def backend_called_def Let_def)
  note e = subscribe_cases [OF IsAvailable_fresh s, of "[]", THEN conjunct1, rule_format]
  note u = subscribe_cases [OF c s, of ?n, THEN conjunct2, THEN conjunct1, rule_format]
  note v = subscribe_cases [OF IsAvailable_fresh s, of ?n, THEN conjunct2, THEN conjunct2,
      rule_format]
  have ne: "?n \<noteq> []" by simp
  from e [OF refl] l
  have "fst (subscribe E0 [] 0 ?st) = None" "listeners (snd (subscribe E0 [] 0 ?st)) = []"
    by simp_all
  moreover from u [OF conjI [OF ne]] l
  have "fst (subscribe E0 ?n 0 ?cl) = Some ''nacosRegistry is not available.''"
    "listeners (snd (subscribe E0 ?n 0 ?cl)) = []"
    by simp_all
  moreover from v [OF conjI [OF ne TrueI]] l ls
  have "fst (subscribe E0 ?n 0 ?st) = None"
    "listeners (snd (subscribe E0 ?n 0 ?st))
       = [\<lparr>l_serviceName = ?n, l_closed = False, l_taken = 0\<rparr>]"
    "goroutines (snd (subscribe E0 ?n 0 ?st)) = [go_handleServiceEvents 0 0]"
    by simp_all
  ultimately show ?thesis by blast
qed

subsection \<open>Destroy, run alone\<close>

lemma frame_listener_Close:
  "listenerCache (listener_Close l st) = listenerCache st"
  "done_chan (listener_Close l st) = done_chan st"
  "wg (listener_Close l st) = wg st"
  "registryUrls (listener_Close l st) = registryUrls st"
  "namingClient (listener_Close l st) = namingClient st"
  "trace (listener_Close l st) = trace st"
  "regURL (listener_Close l st) = regURL st"
  "logs (listener_Close l st) = logs st"
  "notified (listener_Close l st) = notified st"
  by (simp_all add: listener_Close_def)

lemma frame_CloseListener_range:
  "done_chan (CloseListener_range r st) = done_chan st
   \<and> wg (CloseListener_range r st) = wg st
   \<and> registryUrls (CloseListener_range r st) = registryUrls st
   \<and> namingClient (CloseListener_range r st) = namingClient st
   \<and> trace (CloseListener_range r st) = trace st
   \<and> regURL (CloseListener_range r st) = regURL st
   \<and> logs (CloseListener_range r st) = logs st
   \<and> notified (CloseListener_range r st) = notified st"
  by (induction r st rule: CloseListener_range.induct) (simp_all add: frame_listener_Close)




lemmas frame_CloseListener =
  frame_CloseListener_range [of "listenerCache st" st, folded CloseListener_def] for st








lemma done_chan_same: "done_chan s = v \<Longrightarrow> s\<lparr>done_chan := v\<rparr> = s"
  by auto


lemma Destroy_nil:
  "done_chan st = NilChan \<Longrightarrow> Destroy E st = Some (Panicked CloseOfNilChannel)"
  using frame_CloseListener [of st] by (simp add: Destroy_def Let_def)

lemma Destroy_unfold:
  assumes "done_chan st \<noteq> NilChan"
  shows "Destroy E st =
     (if wg st \<noteq> 0 then None
      else (case Destroy_loop E (registryUrls st) ((CloseListener st)\<lparr>done_chan := ClosedChan\<rparr>) of
              Panicked p \<Rightarrow> Some (Panicked p)
            | Returned st3 \<Rightarrow> Some (Returned (CloseAndNilClient (st3\<lparr>registryUrls := []\<rparr>)))))"
proof (cases "done_chan st")
  case NilChan
  with assms show ?thesis by simp
next
  case OpenChan
  then show ?thesis
    using frame_CloseListener [of st] by (simp add: Destroy_def Let_def)
next
  case ClosedChan
  then have e: "(CloseListener st)\<lparr>done_chan := ClosedChan\<rparr> = CloseListener st"
    using frame_CloseListener [of st] by (simp add: done_chan_same)
  show ?thesis
    unfolding e using ClosedChan frame_CloseListener [of st] by (simp add: Destroy_def Let_def)
qed





lemma Client_fresh: "Client (fresh (Some \<lparr>client = Some b\<rparr>)) = Returned b"
  by (simp add: Client_def fresh_def)










subsection \<open>Destroy, run by two goroutines\<close>

text \<open>
  A goroutine that runs the statements of \<open>Destroy\<close> alone ends where \<open>Destroy\<close> ends: the
  steps are the steps of that function.
\<close>

lemma run_Destroy_append:
  "run_Destroy E (xs @ ys) pcs st =
     (case run_Destroy E xs pcs st of
        Panicked p \<Rightarrow> Panicked p
      | Returned (pcs', st') \<Rightarrow> run_Destroy E ys pcs' st')"
  by (induction xs arbitrary: pcs st) (auto split: outcome.splits)

lemma run_alone_range:
  "run_Destroy E (replicate (Suc (length urls)) 0) [At_range urls] st =
     (case Destroy_loop E urls st of
        Panicked p \<Rightarrow> Panicked p
      | Returned st1 \<Rightarrow> Returned ([At_clear], st1))"
  by (induction urls arbitrary: st) (auto split: outcome.splits)

lemma run_alone_tail:
  "run_Destroy E [0, 0, 0] [At_clear] st =
     Returned ([At_return], CloseAndNilClient (st\<lparr>registryUrls := []\<rparr>))"
  by (auto simp: CloseAndNilClient_def Client_def split: option.splits)

lemma run_alone_head:
  assumes "done_chan st \<noteq> NilChan" and "wg st = 0"
  shows "\<exists>k. run_Destroy E (replicate k 0) [At_CloseListener] st =
     Returned ([At_range (registryUrls st)], (CloseListener st)\<lparr>done_chan := ClosedChan\<rparr>)"
proof (cases "done_chan st")
  case NilChan
  with assms show ?thesis by simp
next
  case OpenChan
  with assms frame_CloseListener [of st]
  have "run_Destroy E (replicate (Suc (Suc (Suc (Suc 0)))) 0) [At_CloseListener] st =
     Returned ([At_range (registryUrls st)], (CloseListener st)\<lparr>done_chan := ClosedChan\<rparr>)"
    by simp
  then show ?thesis by blast
next
  case ClosedChan
  with assms frame_CloseListener [of st]
  have "run_Destroy E (replicate (Suc (Suc (Suc 0))) 0) [At_CloseListener] st =
     Returned ([At_range (registryUrls st)], (CloseListener st)\<lparr>done_chan := ClosedChan\<rparr>)"
    by (simp add: done_chan_same)
  then show ?thesis by blast
qed

lemma run_replicate_add:
  "run_Destroy E (replicate a 0) pcs st = Returned (pcs', st') \<Longrightarrow>
   run_Destroy E (replicate (a + b) 0) pcs st = run_Destroy E (replicate b 0) pcs' st'"
  by (simp add: replicate_add run_Destroy_append)

lemma Destroy_run_alone:
  assumes "Destroy E st = Some r"
  shows "\<exists>n. run_Destroy E (replicate n 0) [At_CloseListener] st =
     (case r of
        Panicked p \<Rightarrow> Panicked p
      | Returned st' \<Rightarrow> Returned ([At_return], st'))"
proof (cases "done_chan st = NilChan")
  case True
  then have "run_Destroy E (replicate (Suc (Suc (Suc 0))) 0) [At_CloseListener] st
      = Panicked CloseOfNilChannel"
    using frame_CloseListener [of st] by simp
  moreover from True assms have "r = Panicked CloseOfNilChannel" by (simp add: Destroy_nil)
  ultimately show ?thesis by (metis outcome.simps(6))
next
  case False
  let ?st2 = "(CloseListener st)\<lparr>done_chan := ClosedChan\<rparr>"
  let ?urls = "registryUrls st"
  from assms have w: "wg st = 0" by (auto simp: Destroy_unfold [OF False] split: if_splits)
  from run_alone_head [OF False w, of E] obtain k where
    h: "run_Destroy E (replicate k 0) [At_CloseListener] st = Returned ([At_range ?urls], ?st2)"
    by blast
  note m = run_replicate_add [OF h, of "Suc (length ?urls)", unfolded run_alone_range]
  show ?thesis
  proof (cases "Destroy_loop E ?urls ?st2")
    case (Panicked p)
    with assms w have r: "r = Panicked p" by (simp add: Destroy_unfold [OF False])
    from m Panicked have "run_Destroy E (replicate (k + Suc (length ?urls)) 0)
        [At_CloseListener] st = Panicked p" by simp
    with r show ?thesis by (metis outcome.simps(6))
  next
    case (Returned st3)
    with assms w have r: "r = Returned (CloseAndNilClient (st3\<lparr>registryUrls := []\<rparr>))"
      by (simp add: Destroy_unfold [OF False])
    from m Returned have "run_Destroy E (replicate (k + Suc (length ?urls)) 0)
        [At_CloseListener] st = Returned ([At_clear], st3)" by simp
    from run_replicate_add [OF this, of "Suc (Suc (Suc 0))"] run_alone_tail [of E st3]
    have "run_Destroy E (replicate (k + Suc (length ?urls) + Suc (Suc (Suc 0))) 0)
        [At_CloseListener] st
        = Returned ([At_return], CloseAndNilClient (st3\<lparr>registryUrls := []\<rparr>))"
      by simp
    with r show ?thesis by (metis outcome.simps(5))
  qed
qed


subsection \<open>The event pump\<close>








subsection \<open>subscribeAll\<close>


















subsection \<open>Subscribe\<close>














end
